theory Spec2Isabelle
  imports Complex_Main
begin

section \<open>AlphaOptions: data model\<close>

text \<open>
  A shallow embedding of the decision core of AlphaOptions: the data model of
  \<^verbatim>\<open>models.py\<close>, the position sizer and risk manager of \<^verbatim>\<open>risk.py\<close> and the strategy
  family of \<^verbatim>\<open>strategies.py\<close>.

  Numbers. Python's \<^verbatim>\<open>Decimal\<close> and \<^verbatim>\<open>float\<close> values are both embedded as exact
  rationals (\<^typ>\<open>rat\<close>), Python's unbounded \<^verbatim>\<open>int\<close> as \<^typ>\<open>int\<close>. The embedding is
  therefore exact wherever the source's arithmetic is: it does not model the rounding
  of \<^verbatim>\<open>Decimal\<close> to the 28 significant digits of the default context, the binary
  rounding of \<^verbatim>\<open>float\<close>, or the values NaN and infinity. All concrete inputs evaluated
  below are chosen so that the source computes them without rounding.
\<close>

datatype OptionType = CALL | PUT

datatype OrderSide = BUY | SELL

datatype StrategyType = LONG_CALL | LONG_PUT | STRADDLE | STRANGLE | VERTICAL_SPREAD

text \<open>
  A \<^verbatim>\<open>datetime\<close> is a calendar day (as a day number) and a wall-clock time; a \<^verbatim>\<open>time\<close>
  is compared field by field, most significant first, as Python compares naive times.
\<close>

record pytime =
  hour :: nat
  minute :: nat
  second :: nat
  microsecond :: nat

record datetime =
  day_number :: int
  time_of_day :: pytime

definition time_lt :: "pytime \<Rightarrow> pytime \<Rightarrow> bool" where
  "time_lt a b =
     (hour a < hour b \<or>
      (hour a = hour b \<and>
        (minute a < minute b \<or>
         (minute a = minute b \<and>
           (second a < second b \<or>
            (second a = second b \<and> microsecond a < microsecond b))))))"

record OptionContract =
  symbol :: string
  underlying :: string
  option_type :: OptionType
  strike :: rat
  expiration :: int
  bid :: "rat option"
  ask :: "rat option"
  last_price :: "rat option"
  volume :: int
  open_interest :: int
  implied_volatility :: "rat option"
  delta :: "rat option"
  gamma :: "rat option"
  theta :: "rat option"
  vega :: "rat option"

text \<open>\<^verbatim>\<open>OptionContract.mid_price\<close>: the bid/ask average when both are present, else the last price.\<close>

definition mid_price :: "OptionContract \<Rightarrow> rat option" where
  "mid_price c =
     (case bid c of
        Some b \<Rightarrow> (case ask c of Some a \<Rightarrow> Some ((b + a) / 2) | None \<Rightarrow> last_price c)
      | None \<Rightarrow> last_price c)"

record Position =
  contract :: OptionContract
  quantity :: int
  entry_price :: rat
  entry_time :: datetime
  side :: OrderSide



record Order =
  contract :: OptionContract
  side :: OrderSide
  quantity :: int
  order_type :: string
  limit_price :: "rat option"
  time_in_force :: string
  order_id :: "string option"
  status :: string
  filled_quantity :: int
  filled_price :: "rat option"
  created_at :: datetime

text \<open>
  \<^verbatim>\<open>Order.validate\<close>: three guards in the source's order, each returning \<^verbatim>\<open>False\<close>.
  The third guard is not conditional on the order kind.
\<close>

definition Order_validate :: "Order \<Rightarrow> bool" where
  "Order_validate ord =
     (if quantity ord \<le> 0 then False
      else if order_type ord = ''limit'' \<and> limit_price ord = None then False
      else if (case limit_price ord of None \<Rightarrow> False | Some lp \<Rightarrow> lp \<le> 0) then False
      else True)"

text \<open>A contract and an order used as concrete inputs below.\<close>

definition midnight :: datetime where
  "midnight = \<lparr>day_number = 0, time_of_day = \<lparr>hour = 0, minute = 0, second = 0, microsecond = 0\<rparr>\<rparr>"

definition spy_contract :: "OptionType \<Rightarrow> rat \<Rightarrow> rat option \<Rightarrow> rat option \<Rightarrow> OptionContract" where
  "spy_contract ty k b a =
     \<lparr>symbol = ''SPY'', underlying = ''SPY'', option_type = ty, strike = k, expiration = 0,
      bid = b, ask = a, last_price = None, volume = 0, open_interest = 0,
      implied_volatility = None, delta = None, gamma = None, theta = None, vega = None\<rparr>"

definition new_order :: "OptionContract \<Rightarrow> int \<Rightarrow> string \<Rightarrow> rat option \<Rightarrow> Order" where
  "new_order c q ty lp =
     \<lparr>contract = c, side = BUY, quantity = q, order_type = ty, limit_price = lp,
      time_in_force = ''day'', order_id = None, status = ''new'', filled_quantity = 0,
      filled_price = None, created_at = midnight\<rparr>"

section \<open>Risk management (\<^verbatim>\<open>risk.py\<close>)\<close>

record RiskLimits =
  max_portfolio_risk_pct :: rat
  max_position_size :: int
  max_daily_loss_pct :: rat
  max_single_trade_risk_pct :: rat
  min_buying_power_reserve_pct :: rat
  max_concentration_pct :: rat

definition default_limits :: RiskLimits where
  "default_limits =
     \<lparr>max_portfolio_risk_pct = 5, max_position_size = 10, max_daily_loss_pct = 2,
      max_single_trade_risk_pct = 1, min_buying_power_reserve_pct = 20,
      max_concentration_pct = 25\<rparr>"



record PositionSizer =
  account_value :: rat
  risk_per_trade_pct :: rat
  max_contracts :: int


record RiskManager =
  account_value :: rat
  limits :: RiskLimits
  daily_pnl :: rat
  open_positions :: "Position list"

text \<open>The constructor: no positions, zero daily P&L.\<close>

definition new_RiskManager :: "rat \<Rightarrow> RiskLimits \<Rightarrow> RiskManager" where
  "new_RiskManager av ls = \<lparr>account_value = av, limits = ls, daily_pnl = 0, open_positions = []\<rparr>"






text \<open>
  The reason string of \<^verbatim>\<open>can_take_trade\<close> is an f-string; it is kept as the sequence of
  its literal pieces and interpolated values, so that no number formatting is assumed.
\<close>

datatype fragment = Lit string | Dec rat | Num int | Str string

type_synonym message = "fragment list"









text \<open>
  The methods of \<^verbatim>\<open>RiskManager\<close> as state transformers: each takes the manager it is
  called on and gives back its return value with the manager after the call. The four
  mutators assign to \<^verbatim>\<open>self\<close>; \<^verbatim>\<open>can_take_trade\<close> and \<^verbatim>\<open>get_risk_summary\<close> (and the
  properties they read) contain no assignment to \<^verbatim>\<open>self\<close> and no call that mutates the
  position list.
\<close>

definition update_daily_pnl :: "rat \<Rightarrow> RiskManager \<Rightarrow> unit \<times> RiskManager" where
  "update_daily_pnl pnl m = ((), m\<lparr>daily_pnl := daily_pnl m + pnl\<rparr>)"

definition reset_daily_pnl :: "RiskManager \<Rightarrow> unit \<times> RiskManager" where
  "reset_daily_pnl m = ((), m\<lparr>daily_pnl := 0\<rparr>)"

definition add_position :: "Position \<Rightarrow> RiskManager \<Rightarrow> unit \<times> RiskManager" where
  "add_position p m = ((), m\<lparr>open_positions := open_positions m @ [p]\<rparr>)"

definition remove_position :: "Position \<Rightarrow> RiskManager \<Rightarrow> unit \<times> RiskManager" where
  "remove_position p m =
     (if p \<in> set (open_positions m)
      then ((), m\<lparr>open_positions := remove1 p (open_positions m)\<rparr>)
      else ((), m))"





section \<open>Strategies (\<^verbatim>\<open>strategies.py\<close>)\<close>

record StrategySignal =
  strategy_type :: StrategyType
  contracts :: "OptionContract list"
  sides :: "OrderSide list"
  quantities :: "int list"
  confidence :: rat
  reason :: message
  timestamp :: datetime

text \<open>
  \<^verbatim>\<open>StrategySignal.validate\<close>. The second guard is the chained comparison
  \<^verbatim>\<open>len(contracts) != len(sides) != len(quantities)\<close>, which Python evaluates as
  \<^verbatim>\<open>len(contracts) != len(sides) and len(sides) != len(quantities)\<close>.
\<close>

definition StrategySignal_validate :: "StrategySignal \<Rightarrow> bool" where
  "StrategySignal_validate sg =
     (if contracts sg = [] then False
      else if length (contracts sg) \<noteq> length (sides sg)
              \<and> length (sides sg) \<noteq> length (quantities sg) then False
      else if \<not> (0 \<le> confidence sg \<and> confidence sg \<le> 1) then False
      else True)"

datatype error = ValueError string | DivisionByZero

text \<open>
  The system clock: \<open>clk n\<close> is what the \<open>n\<close>-th call of \<^verbatim>\<open>datetime.now()\<close> made by the
  modelled function returns.
\<close>

type_synonym clock = "nat \<Rightarrow> datetime"

definition ALPACA_0DTE_CUTOFF :: pytime where
  "ALPACA_0DTE_CUTOFF = \<lparr>hour = 15, minute = 15, second = 0, microsecond = 0\<rparr>"

record BaseStrategy =
  max_position_size :: int
  min_confidence :: rat
  respect_cutoff :: bool

definition is_within_trading_hours ::
  "'a BaseStrategy_scheme \<Rightarrow> datetime option \<Rightarrow> clock \<Rightarrow> bool" where
  "is_within_trading_hours s current_time clk =
     (let check_time = (case current_time of Some t \<Rightarrow> t | None \<Rightarrow> clk 0)
      in if respect_cutoff s then time_lt (time_of_day check_time) ALPACA_0DTE_CUTOFF
         else True)"

text \<open>
  \<^verbatim>\<open>create_orders\<close>: the loop over \<^verbatim>\<open>zip(contracts, sides, quantities)\<close>, which stops at
  the shortest of the three sequences. The order kind is never passed, so every order
  gets the default \<^verbatim>\<open>"limit"\<close>; \<^verbatim>\<open>created_at\<close> is read from the clock. \<open>leg_order\<close> is
  the \<^verbatim>\<open>Order(...)\<close> call of the loop body for the \<open>n\<close>-th leg.
\<close>

definition leg_order :: "int \<Rightarrow> clock \<Rightarrow> nat \<times> OptionContract \<times> OrderSide \<times> int \<Rightarrow> Order" where
  "leg_order mps clk =
     (\<lambda>(n, c, sd, qty).
        \<lparr>contract = c, side = sd, quantity = min qty mps, order_type = ''limit'',
         limit_price = mid_price c, time_in_force = ''day'', order_id = None,
         status = ''new'', filled_quantity = 0, filled_price = None,
         created_at = clk n\<rparr>)"

fun create_orders_loop ::
  "int \<Rightarrow> clock \<Rightarrow> nat \<Rightarrow> (OptionContract \<times> OrderSide \<times> int) list \<Rightarrow> Order list \<Rightarrow> Order list" where
  "create_orders_loop mps clk n [] orders = orders"
| "create_orders_loop mps clk n (leg # legs) orders =
     create_orders_loop mps clk (Suc n) legs (orders @ [leg_order mps clk (n, leg)])"

definition create_orders ::
  "'a BaseStrategy_scheme \<Rightarrow> StrategySignal \<Rightarrow> clock \<Rightarrow> error + Order list" where
  "create_orders s sg clk =
     (if \<not> StrategySignal_validate sg then Inl (ValueError ''Invalid signal'')
      else Inr (create_orders_loop (BaseStrategy.max_position_size s) clk 0
                  (zip (contracts sg) (zip (sides sg) (quantities sg))) []))"







text \<open>
  Python's \<^verbatim>\<open>min(xs, key=f)\<close> and \<^verbatim>\<open>max(xs, key=f)\<close> on a non-empty sequence: one pass that
  replaces the running choice only by a strictly smaller (greater) key, so the first
  extremal element in iteration order is returned.
\<close>

fun min_loop :: "('a \<Rightarrow> rat) \<Rightarrow> 'a list \<Rightarrow> 'a \<Rightarrow> 'a" where
  "min_loop key [] best = best"
| "min_loop key (x # xs) best = min_loop key xs (if key x < key best then x else best)"

fun max_loop :: "('a \<Rightarrow> rat) \<Rightarrow> 'a list \<Rightarrow> 'a \<Rightarrow> 'a" where
  "max_loop key [] best = best"
| "max_loop key (x # xs) best = max_loop key xs (if key x > key best then x else best)"

record StraddleStrategy = BaseStrategy +
  max_total_premium_pct :: rat

text \<open>
  \<^verbatim>\<open>find_atm_strike\<close> takes the minimum over a Python \<^verbatim>\<open>set\<close> of strikes. The order in which
  a set is iterated is not fixed by the language, so it is a parameter: \<open>set_iter xs\<close> is
  the sequence in which the set built from the values \<open>xs\<close> is iterated. The theorems
  assume of it only that it lists the members of the set.
\<close>

definition find_atm_strike ::
  "(rat list \<Rightarrow> rat list) \<Rightarrow> OptionContract list \<Rightarrow> rat \<Rightarrow> rat option" where
  "find_atm_strike set_iter cs underlying_price =
     (case set_iter (map strike cs) of
        [] \<Rightarrow> None
      | k # ks \<Rightarrow> Some (min_loop (\<lambda>k. \<bar>k - underlying_price\<bar>) ks k))"

fun find_atm_legs ::
  "rat \<Rightarrow> OptionContract list \<Rightarrow> OptionContract option \<Rightarrow> OptionContract option
     \<Rightarrow> OptionContract option \<times> OptionContract option" where
  "find_atm_legs atm_strike [] atm_call atm_put = (atm_call, atm_put)"
| "find_atm_legs atm_strike (c # cs) atm_call atm_put =
     (if strike c = atm_strike then
        (if option_type c = CALL then find_atm_legs atm_strike cs (Some c) atm_put
         else if option_type c = PUT then find_atm_legs atm_strike cs atm_call (Some c)
         else find_atm_legs atm_strike cs atm_call atm_put)
      else find_atm_legs atm_strike cs atm_call atm_put)"

definition Straddle_generate_signal ::
  "(rat list \<Rightarrow> rat list) \<Rightarrow> StraddleStrategy \<Rightarrow> rat \<Rightarrow> OptionContract list
     \<Rightarrow> datetime option \<Rightarrow> clock \<Rightarrow> StrategySignal option" where
  "Straddle_generate_signal set_iter s underlying_price available_contracts current_time clk =
     (if \<not> is_within_trading_hours s current_time clk then None
      else
        case find_atm_strike set_iter available_contracts underlying_price of
          None \<Rightarrow> None
        | Some atm_strike \<Rightarrow>
            (case find_atm_legs atm_strike available_contracts None None of
               (Some atm_call, Some atm_put) \<Rightarrow>
                 Some \<lparr>strategy_type = STRADDLE, contracts = [atm_call, atm_put],
                       sides = [BUY, BUY], quantities = [1, 1], confidence = 65/100,
                       reason = [Lit ''Straddle on '', Str (underlying atm_call),
                                 Lit '' @ '', Dec atm_strike],
                       timestamp = (case current_time of Some t \<Rightarrow> t | None \<Rightarrow> clk 1)\<rparr>
             | _ \<Rightarrow> None))"

record StrangleStrategy = BaseStrategy +
  call_delta :: rat
  put_delta :: rat

definition Strangle_generate_signal ::
  "StrangleStrategy \<Rightarrow> rat \<Rightarrow> OptionContract list \<Rightarrow> datetime option \<Rightarrow> clock
     \<Rightarrow> StrategySignal option" where
  "Strangle_generate_signal s underlying_price available_contracts current_time clk =
     (if \<not> is_within_trading_hours s current_time clk then None
      else
        let calls = filter (\<lambda>c. option_type c = CALL) available_contracts;
            puts = filter (\<lambda>c. option_type c = PUT) available_contracts
        in if calls = [] \<or> puts = [] then None
           else
             let otm_calls = filter (\<lambda>c. strike c > underlying_price) calls;
                 otm_puts = filter (\<lambda>c. strike c < underlying_price) puts
             in case otm_calls of
                  [] \<Rightarrow> None
                | c0 # calls_rest \<Rightarrow>
                    (case otm_puts of
                       [] \<Rightarrow> None
                     | p0 # puts_rest \<Rightarrow>
                         let selected_call = min_loop strike calls_rest c0;
                             selected_put = max_loop strike puts_rest p0
                         in Some \<lparr>strategy_type = STRANGLE,
                                  contracts = [selected_call, selected_put],
                                  sides = [BUY, BUY], quantities = [1, 1], confidence = 6/10,
                                  reason = [Lit ''Strangle: call@'', Dec (strike selected_call),
                                            Lit '', put@'', Dec (strike selected_put)],
                                  timestamp =
                                    (case current_time of Some t \<Rightarrow> t | None \<Rightarrow> clk 1)\<rparr>))"

text \<open>Concrete inputs for the strategies.\<close>

definition ten_am :: datetime where
  "ten_am = \<lparr>day_number = 0, time_of_day = \<lparr>hour = 10, minute = 0, second = 0, microsecond = 0\<rparr>\<rparr>"

definition fixed_clock :: clock where
  "fixed_clock = (\<lambda>n. ten_am)"

definition base_strategy :: BaseStrategy where
  "base_strategy = \<lparr>max_position_size = 10, min_confidence = 6/10, respect_cutoff = True\<rparr>"



definition straddle_strategy :: StraddleStrategy where
  "straddle_strategy =
     \<lparr>max_position_size = 10, min_confidence = 6/10, respect_cutoff = True,
      max_total_premium_pct = 4\<rparr>"

definition strangle_strategy :: StrangleStrategy where
  "strangle_strategy =
     \<lparr>max_position_size = 10, min_confidence = 6/10, respect_cutoff = True,
      call_delta = 3/10, put_delta = -3/10\<rparr>"

definition new_signal ::
  "OptionContract list \<Rightarrow> OrderSide list \<Rightarrow> int list \<Rightarrow> rat \<Rightarrow> StrategySignal" where
  "new_signal cs ss qs conf =
     \<lparr>strategy_type = STRADDLE, contracts = cs, sides = ss, quantities = qs,
      confidence = conf, reason = [Lit ''Test signal''], timestamp = ten_am\<rparr>"

text \<open>Calls and puts at the strikes 465, 470, 475, 480, 485.\<close>

definition five_strike_chain :: "OptionContract list" where
  "five_strike_chain =
     concat (map (\<lambda>k. [spy_contract CALL k (Some 1) (Some 2), spy_contract PUT k (Some 1) (Some 2)])
               [465, 470, 475, 480, 485])"

text \<open>Calls at 480 and 490, puts at 460 and 470.\<close>

definition strangle_chain :: "OptionContract list" where
  "strangle_chain =
     [spy_contract CALL 480 (Some 1) (Some 2), spy_contract CALL 490 (Some 1) (Some 2),
      spy_contract PUT 460 (Some 1) (Some 2), spy_contract PUT 470 (Some 1) (Some 2)]"

section \<open>Order validity\<close>

text \<open>
  C8 (as stated, refuted): the claim reads validity as \<open>quantity > 0\<close> together with a
  limit-price requirement that applies to limit orders only, so that a market order's
  validity would not depend on its limit-price field. In the source a market order that
  carries the limit price \<open>-1\<close> is invalid while the same order without a limit price is
  valid.
\<close>

theorem C8_market_order_price_counterexample:
  "Order_validate (new_order (spy_contract CALL 475 None None) 1 ''market'' None)
   \<and> \<not> Order_validate (new_order (spy_contract CALL 475 None None) 1 ''market'' (Some (-1)))"
  by (simp add: Order_validate_def new_order_def)

text \<open>
  C8 (amended): an order is valid if and only if its quantity is positive, a limit price
  is present whenever its kind is \<^verbatim>\<open>limit\<close>, and any limit price it carries, whatever its
  kind, is positive. Validity is a function of the order's fields alone.
\<close>

theorem C8_order_validate_iff:
  "Order_validate ord \<longleftrightarrow>
     quantity ord > 0
     \<and> (order_type ord = ''limit'' \<longrightarrow> limit_price ord \<noteq> None)
     \<and> (\<forall>lp. limit_price ord = Some lp \<longrightarrow> lp > 0)"
  by (cases "limit_price ord") (auto simp: Order_validate_def)

theorem C8_order_validate_iff_witness:
  "order_type (new_order (spy_contract CALL 475 None None) 5 ''limit'' (Some (51/20))) = ''limit''
   \<and> limit_price (new_order (spy_contract CALL 475 None None) 5 ''limit'' (Some (51/20))) = Some (51/20)
   \<and> Order_validate (new_order (spy_contract CALL 475 None None) 5 ''limit'' (Some (51/20)))"
  using C8_order_validate_iff [of "new_order (spy_contract CALL 475 None None) 5 ''limit'' (Some (51/20))"]
  by (simp add: new_order_def)

section \<open>Position sizing\<close>






section \<open>Admissibility of a trade\<close>






section \<open>Frame of the read-only methods\<close>


text \<open>The mutators, by contrast, do change the manager.\<close>

lemma mutators_change_state:
  "daily_pnl (snd (update_daily_pnl 5 (new_RiskManager 100000 default_limits))) = 5"
  "open_positions (snd (add_position p (new_RiskManager 100000 default_limits))) = [p]"
  by (simp_all add: update_daily_pnl_def add_position_def new_RiskManager_def)

section \<open>Orders made from a signal\<close>

lemma create_orders_loop_eq:
  "create_orders_loop mps clk n legs orders =
     orders @ map (leg_order mps clk) (zip [n..<n + length legs] legs)"
proof (induction legs arbitrary: n orders)
  case Nil
  then show ?case by simp
next
  case (Cons leg legs)
  have "[n..<n + length (leg # legs)] = n # [Suc n..<Suc n + length legs]"
    by (subst upt_rec) simp
  then show ?case using Cons.IH [of "Suc n"] by simp
qed

lemma create_orders_loop_nth:
  assumes "i < length legs"
  shows "create_orders_loop mps clk 0 legs [] ! i = leg_order mps clk (i, legs ! i)"
  using assms by (simp add: create_orders_loop_eq)

lemma create_orders_loop_kind:
  "ord \<in> set (create_orders_loop mps clk n legs []) \<Longrightarrow> order_type ord = ''limit''"
  by (auto simp: create_orders_loop_eq leg_order_def)

lemma validate_equal_lengths:
  assumes "contracts sg \<noteq> []" "length (sides sg) = length (contracts sg)"
    "length (quantities sg) = length (contracts sg)" "0 \<le> confidence sg" "confidence sg \<le> 1"
  shows "StrategySignal_validate sg"
  using assms by (simp add: StrategySignal_validate_def)

text \<open>
  On a signal that is non-empty, has three sequences of one length and a confidence in
  \<open>[0, 1]\<close>, \<^verbatim>\<open>create_orders\<close> raises nothing and returns one order per leg, with the
  quantity capped by \<^verbatim>\<open>max_position_size\<close> and the contract's mid price as limit price.
\<close>

lemma create_orders_valid:
  assumes "contracts sg \<noteq> []" "length (sides sg) = length (contracts sg)"
    "length (quantities sg) = length (contracts sg)" "0 \<le> confidence sg" "confidence sg \<le> 1"
  shows "\<exists>orders. create_orders s sg clk = Inr orders
           \<and> length orders = length (contracts sg)
           \<and> (\<forall>i < length (contracts sg).
                 contract (orders ! i) = contracts sg ! i
               \<and> side (orders ! i) = sides sg ! i
               \<and> quantity (orders ! i)
                   = min (quantities sg ! i) (BaseStrategy.max_position_size s)
               \<and> order_type (orders ! i) = ''limit''
               \<and> limit_price (orders ! i) = mid_price (contracts sg ! i))"
proof -
  let ?legs = "zip (contracts sg) (zip (sides sg) (quantities sg))"
  let ?os = "create_orders_loop (BaseStrategy.max_position_size s) clk 0 ?legs []"
  have len: "length ?legs = length (contracts sg)" using assms by simp
  have "create_orders s sg clk = Inr ?os"
    using validate_equal_lengths [OF assms] by (simp add: create_orders_def)
  moreover have "length ?os = length (contracts sg)"
    using len by (simp add: create_orders_loop_eq)
  moreover have "\<forall>i < length (contracts sg).
      contract (?os ! i) = contracts sg ! i
    \<and> side (?os ! i) = sides sg ! i
    \<and> quantity (?os ! i) = min (quantities sg ! i) (BaseStrategy.max_position_size s)
    \<and> order_type (?os ! i) = ''limit''
    \<and> limit_price (?os ! i) = mid_price (contracts sg ! i)"
  proof (intro allI impI)
    fix i assume i: "i < length (contracts sg)"
    then have "i < length ?legs" using len by simp
    then have "?os ! i = leg_order (BaseStrategy.max_position_size s) clk (i, ?legs ! i)"
      by (rule create_orders_loop_nth)
    moreover have "?legs ! i = (contracts sg ! i, sides sg ! i, quantities sg ! i)"
      using i assms by simp
    ultimately show "contract (?os ! i) = contracts sg ! i
      \<and> side (?os ! i) = sides sg ! i
      \<and> quantity (?os ! i) = min (quantities sg ! i) (BaseStrategy.max_position_size s)
      \<and> order_type (?os ! i) = ''limit''
      \<and> limit_price (?os ! i) = mid_price (contracts sg ! i)"
      by (simp add: leg_order_def)
  qed
  ultimately show ?thesis by simp
qed

text \<open>
  C2 (the code departs from the claim): a signal with two contracts, two sides and one
  quantity passes \<^verbatim>\<open>validate\<close>, because the chained comparison stops at the first pair of
  equal lengths; \<^verbatim>\<open>create_orders\<close> then raises nothing and returns a single order, the
  put leg being dropped by \<^verbatim>\<open>zip\<close>.
\<close>

theorem C2_mismatched_lengths_accepted:
  "StrategySignal_validate
     (new_signal [spy_contract CALL 475 (Some 1) (Some 2), spy_contract PUT 475 (Some 1) (Some 2)]
        [BUY, BUY] [1] (65/100))
   \<and> create_orders base_strategy
       (new_signal [spy_contract CALL 475 (Some 1) (Some 2), spy_contract PUT 475 (Some 1) (Some 2)]
          [BUY, BUY] [1] (65/100)) fixed_clock
     = Inr [\<lparr>contract = spy_contract CALL 475 (Some 1) (Some 2), side = BUY, quantity = 1,
             order_type = ''limit'', limit_price = Some (3/2), time_in_force = ''day'',
             order_id = None, status = ''new'', filled_quantity = 0, filled_price = None,
             created_at = ten_am\<rparr>]"
  by (simp add: StrategySignal_validate_def create_orders_def new_signal_def base_strategy_def
      fixed_clock_def mid_price_def spy_contract_def leg_order_def)

text \<open>
  C10: every order that \<^verbatim>\<open>create_orders\<close> returns is of kind \<^verbatim>\<open>limit\<close>; and for a
  structurally valid signal (non-empty, three sequences of one length, confidence in
  \<open>[0, 1]\<close>) with a leg whose contract has no mid price, \<^verbatim>\<open>create_orders\<close> returns its
  orders without an error, and the order of that leg has no limit price and fails
  \<^verbatim>\<open>Order.validate\<close>.
\<close>

theorem C10_limit_order_without_price:
  "(\<forall>orders. create_orders s sg clk = Inr orders
       \<longrightarrow> (\<forall>ord \<in> set orders. order_type ord = ''limit''))
   \<and> (contracts sg \<noteq> [] \<and> length (sides sg) = length (contracts sg)
        \<and> length (quantities sg) = length (contracts sg)
        \<and> 0 \<le> confidence sg \<and> confidence sg \<le> 1
        \<and> i < length (contracts sg) \<and> mid_price (contracts sg ! i) = None
      \<longrightarrow> (\<exists>orders. create_orders s sg clk = Inr orders
             \<and> length orders = length (contracts sg)
             \<and> contract (orders ! i) = contracts sg ! i
             \<and> order_type (orders ! i) = ''limit''
             \<and> limit_price (orders ! i) = None
             \<and> \<not> Order_validate (orders ! i)))"
proof (intro conjI allI impI)
  fix orders assume "create_orders s sg clk = Inr orders"
  then show "\<forall>ord \<in> set orders. order_type ord = ''limit''"
    by (auto simp: create_orders_def split: if_splits dest: create_orders_loop_kind)
next
  assume a: "contracts sg \<noteq> [] \<and> length (sides sg) = length (contracts sg)
        \<and> length (quantities sg) = length (contracts sg)
        \<and> 0 \<le> confidence sg \<and> confidence sg \<le> 1
        \<and> i < length (contracts sg) \<and> mid_price (contracts sg ! i) = None"
  then obtain orders where o: "create_orders s sg clk = Inr orders"
      "length orders = length (contracts sg)"
      "\<forall>i < length (contracts sg).
                 contract (orders ! i) = contracts sg ! i
               \<and> side (orders ! i) = sides sg ! i
               \<and> quantity (orders ! i)
                   = min (quantities sg ! i) (BaseStrategy.max_position_size s)
               \<and> order_type (orders ! i) = ''limit''
               \<and> limit_price (orders ! i) = mid_price (contracts sg ! i)"
    using create_orders_valid [of sg s clk] by blast
  from o(3) a have p: "contract (orders ! i) = contracts sg ! i"
     "order_type (orders ! i) = ''limit''" "limit_price (orders ! i) = None" by auto
  then have "\<not> Order_validate (orders ! i)" by (simp add: Order_validate_def)
  with o p show "\<exists>orders. create_orders s sg clk = Inr orders
             \<and> length orders = length (contracts sg)
             \<and> contract (orders ! i) = contracts sg ! i
             \<and> order_type (orders ! i) = ''limit''
             \<and> limit_price (orders ! i) = None
             \<and> \<not> Order_validate (orders ! i)" by blast
qed

text \<open>A one-leg signal on a contract without bid, ask and last price.\<close>

theorem C10_limit_order_without_price_witness:
  "mid_price (spy_contract CALL 475 None None) = None
   \<and> (\<exists>orders. create_orders base_strategy
                  (new_signal [spy_contract CALL 475 None None] [BUY] [1] (7/10)) fixed_clock
                = Inr orders
          \<and> length orders = 1
          \<and> order_type (orders ! 0) = ''limit''
          \<and> limit_price (orders ! 0) = None
          \<and> \<not> Order_validate (orders ! 0))"
  using C10_limit_order_without_price
    [of base_strategy "new_signal [spy_contract CALL 475 None None] [BUY] [1] (7/10)"
        fixed_clock 0]
  by (simp add: new_signal_def mid_price_def spy_contract_def) blast

section \<open>Straddle\<close>

lemma min_loop_mem: "min_loop key xs best \<in> set (best # xs)"
  by (induction xs arbitrary: best) auto

lemma min_loop_le_best: "key (min_loop key xs best) \<le> key best"
proof (induction xs arbitrary: best)
  case Nil
  then show ?case by simp
next
  case (Cons x xs)
  show ?case using Cons.IH [of "if key x < key best then x else best"]
    by (auto split: if_splits)
qed

lemma min_loop_le: "y \<in> set xs \<Longrightarrow> key (min_loop key xs best) \<le> key y"
proof (induction xs arbitrary: best)
  case Nil
  then show ?case by simp
next
  case (Cons x xs)
  show ?case
  proof (cases "y = x")
    case True
    then show ?thesis
      using min_loop_le_best [of key xs "if key x < key best then x else best"]
      by (auto split: if_splits)
  next
    case False
    then show ?thesis using Cons by auto
  qed
qed

lemma max_loop_mem: "max_loop key xs best \<in> set (best # xs)"
  by (induction xs arbitrary: best) auto

lemma max_loop_ge_best: "key best \<le> key (max_loop key xs best)"
proof (induction xs arbitrary: best)
  case Nil
  then show ?case by simp
next
  case (Cons x xs)
  show ?case using Cons.IH [of "if key x > key best then x else best"]
    by (auto split: if_splits)
qed

lemma max_loop_ge: "y \<in> set xs \<Longrightarrow> key y \<le> key (max_loop key xs best)"
proof (induction xs arbitrary: best)
  case Nil
  then show ?case by simp
next
  case (Cons x xs)
  show ?case
  proof (cases "y = x")
    case True
    then show ?thesis
      using max_loop_ge_best [of key "if key x > key best then x else best" xs]
      by (auto split: if_splits)
  next
    case False
    then show ?thesis using Cons by auto
  qed
qed

lemma find_atm_legs_eq:
  "find_atm_legs k cs a b =
     ((case filter (\<lambda>c. strike c = k \<and> option_type c = CALL) cs of [] \<Rightarrow> a | x # xs \<Rightarrow> Some (last (x # xs))),
      (case filter (\<lambda>c. strike c = k \<and> option_type c = PUT) cs of [] \<Rightarrow> b | x # xs \<Rightarrow> Some (last (x # xs))))"
proof (induction cs arbitrary: a b)
  case Nil
  then show ?case by simp
next
  case (Cons c cs)
  show ?case
  proof (cases "strike c = k")
    case False
    then show ?thesis using Cons.IH by simp
  next
    case True
    show ?thesis
    proof (cases "option_type c")
      case CALL
      then show ?thesis using True Cons.IH [of "Some c" b]
        by (simp split: list.splits)
    next
      case PUT
      then show ?thesis using True Cons.IH [of a "Some c"]
        by (simp split: list.splits)
    qed
  qed
qed

lemma find_atm_strike_props:
  assumes "set (set_iter (map strike cs)) = set (map strike cs)" "cs \<noteq> []"
  shows "\<exists>k. find_atm_strike set_iter cs p = Some k \<and> k \<in> strike ` set cs
            \<and> (\<forall>c \<in> set cs. \<bar>k - p\<bar> \<le> \<bar>strike c - p\<bar>)"
proof -
  from assms have ne: "set_iter (map strike cs) \<noteq> []" by (cases cs) auto
  then obtain k0 ks where it: "set_iter (map strike cs) = k0 # ks" by (cases "set_iter (map strike cs)") auto
  let ?k = "min_loop (\<lambda>k. \<bar>k - p\<bar>) ks k0"
  have r: "find_atm_strike set_iter cs p = Some ?k" by (simp add: find_atm_strike_def it)
  have st: "set (k0 # ks) = strike ` set cs" by (metis it assms(1) set_map)
  have "?k \<in> set (k0 # ks)" by (rule min_loop_mem)
  then have m: "?k \<in> strike ` set cs" by (simp only: st)
  have "\<forall>c \<in> set cs. \<bar>?k - p\<bar> \<le> \<bar>strike c - p\<bar>"
  proof
    fix c assume "c \<in> set cs"
    then have "strike c \<in> set (k0 # ks)" by (simp only: st) simp
    then show "\<bar>?k - p\<bar> \<le> \<bar>strike c - p\<bar>"
      using min_loop_le [of "strike c" ks "\<lambda>k. \<bar>k - p\<bar>" k0] min_loop_le_best [of "\<lambda>k. \<bar>k - p\<bar>" ks k0]
      by auto
  qed
  with r m show ?thesis by blast
qed

lemma find_atm_legs_Some:
  "(\<exists>call put. find_atm_legs k cs None None = (Some call, Some put))
     \<longleftrightarrow> (\<exists>c \<in> set cs. strike c = k \<and> option_type c = CALL)
         \<and> (\<exists>c \<in> set cs. strike c = k \<and> option_type c = PUT)"
proof -
  let ?fc = "filter (\<lambda>c. strike c = k \<and> option_type c = CALL) cs"
  let ?fp = "filter (\<lambda>c. strike c = k \<and> option_type c = PUT) cs"
  have "(\<exists>call put. find_atm_legs k cs None None = (Some call, Some put))
          \<longleftrightarrow> ?fc \<noteq> [] \<and> ?fp \<noteq> []"
    by (cases ?fc; cases ?fp) (simp_all add: find_atm_legs_eq)
  also have "\<dots> \<longleftrightarrow> (\<exists>c \<in> set cs. strike c = k \<and> option_type c = CALL)
         \<and> (\<exists>c \<in> set cs. strike c = k \<and> option_type c = PUT)"
    by (simp only: filter_empty_conv) blast
  finally show ?thesis .
qed

lemma find_atm_legs_props:
  assumes "find_atm_legs k cs None None = (Some call, Some put)"
  shows "call \<in> set cs \<and> strike call = k \<and> option_type call = CALL
       \<and> put \<in> set cs \<and> strike put = k \<and> option_type put = PUT"
proof -
  let ?fc = "filter (\<lambda>c. strike c = k \<and> option_type c = CALL) cs"
  let ?fp = "filter (\<lambda>c. strike c = k \<and> option_type c = PUT) cs"
  from assms have c: "?fc \<noteq> []" "call = last ?fc" and p: "?fp \<noteq> []" "put = last ?fp"
    by (auto simp: find_atm_legs_eq split: list.splits)
  from c have "call \<in> set ?fc" using last_in_set by blast
  moreover from p have "put \<in> set ?fp" using last_in_set by blast
  ultimately show ?thesis by simp
qed


lemma five_strike_chain_atm:
  assumes "set (set_iter (map strike five_strike_chain)) = set (map strike five_strike_chain)"
  shows "find_atm_strike set_iter five_strike_chain 473 = Some 475"
proof -
  have ne: "five_strike_chain \<noteq> []" by (simp add: five_strike_chain_def)
  from find_atm_strike_props [of set_iter five_strike_chain 473] assms ne
  obtain k where k: "find_atm_strike set_iter five_strike_chain 473 = Some k"
      "k \<in> strike ` set five_strike_chain"
      "\<forall>c \<in> set five_strike_chain. \<bar>k - 473\<bar> \<le> \<bar>strike c - 473\<bar>" by blast
  have "spy_contract CALL 475 (Some 1) (Some 2) \<in> set five_strike_chain"
    by (simp add: five_strike_chain_def)
  with k(3) have "\<bar>k - 473\<bar> \<le> \<bar>strike (spy_contract CALL 475 (Some 1) (Some 2)) - 473\<bar>"
    by blast
  then have b: "\<bar>k - 473\<bar> \<le> 2" by (simp add: spy_contract_def)
  from k(2) have "k \<in> {465, 470, 475, 480, 485}"
    by (auto simp: five_strike_chain_def spy_contract_def)
  with b have "k = 475" by auto
  with k(1) show ?thesis by simp
qed


text \<open>
  C5: within trading hours, and for any order in which the set of strikes is iterated,
  the straddle's ATM strike is undefined for an empty contract list (and no signal is
  produced); for a non-empty list it is a strike of the list whose distance to the
  underlying price is least over all contracts, calls and puts pooled. A signal is
  produced exactly when the list has a call and a put at that strike: two legs, a call
  and a put of the list at that strike, both bought, quantity 1 each, confidence 0.65;
  otherwise there is no signal. With calls and puts at 465, 470, 475, 480 and 485 and an
  underlying price of 473 the ATM strike is 475.
\<close>

theorem C5_straddle:
  assumes hours: "is_within_trading_hours s current_time clk"
      and iter: "set (set_iter (map strike cs)) = set (map strike cs)"
  shows "(cs = [] \<longrightarrow> find_atm_strike set_iter cs p = None
            \<and> Straddle_generate_signal set_iter s p cs current_time clk = None)
    \<and> (cs \<noteq> [] \<longrightarrow>
         (\<exists>k. find_atm_strike set_iter cs p = Some k
             \<and> k \<in> strike ` set cs
             \<and> (\<forall>c \<in> set cs. \<bar>k - p\<bar> \<le> \<bar>strike c - p\<bar>)
             \<and> (if (\<exists>c \<in> set cs. strike c = k \<and> option_type c = CALL)
                    \<and> (\<exists>c \<in> set cs. strike c = k \<and> option_type c = PUT)
                 then \<exists>sg call put.
                        Straddle_generate_signal set_iter s p cs current_time clk = Some sg
                      \<and> contracts sg = [call, put]
                      \<and> call \<in> set cs \<and> option_type call = CALL \<and> strike call = k
                      \<and> put \<in> set cs \<and> option_type put = PUT \<and> strike put = k
                      \<and> sides sg = [BUY, BUY] \<and> quantities sg = [1, 1]
                      \<and> confidence sg = 65/100
                 else Straddle_generate_signal set_iter s p cs current_time clk = None)))
    \<and> (set (set_iter (map strike five_strike_chain)) = set (map strike five_strike_chain)
         \<longrightarrow> find_atm_strike set_iter five_strike_chain 473 = Some 475)"
proof (intro conjI impI)
  assume "set (set_iter (map strike five_strike_chain)) = set (map strike five_strike_chain)"
  then show "find_atm_strike set_iter five_strike_chain 473 = Some 475"
    by (rule five_strike_chain_atm)
next
  assume "cs = []"
  then show "find_atm_strike set_iter cs p = None" using iter by (simp add: find_atm_strike_def)
  then show "Straddle_generate_signal set_iter s p cs current_time clk = None"
    by (simp add: Straddle_generate_signal_def)
next
  assume ne: "cs \<noteq> []"
  from find_atm_strike_props [of set_iter cs p] iter ne
  obtain k where k: "find_atm_strike set_iter cs p = Some k" "k \<in> strike ` set cs"
     "\<forall>c \<in> set cs. \<bar>k - p\<bar> \<le> \<bar>strike c - p\<bar>" by blast
  let ?both = "(\<exists>c \<in> set cs. strike c = k \<and> option_type c = CALL)
                    \<and> (\<exists>c \<in> set cs. strike c = k \<and> option_type c = PUT)"
  have "if ?both
        then \<exists>sg call put.
                        Straddle_generate_signal set_iter s p cs current_time clk = Some sg
                      \<and> contracts sg = [call, put]
                      \<and> call \<in> set cs \<and> option_type call = CALL \<and> strike call = k
                      \<and> put \<in> set cs \<and> option_type put = PUT \<and> strike put = k
                      \<and> sides sg = [BUY, BUY] \<and> quantities sg = [1, 1]
                      \<and> confidence sg = 65/100
        else Straddle_generate_signal set_iter s p cs current_time clk = None"
  proof (cases ?both)
    case True
    then obtain call put where l: "find_atm_legs k cs None None = (Some call, Some put)"
      using find_atm_legs_Some [of k cs] by blast
    from find_atm_legs_props [OF l] l k(1) hours True show ?thesis
      by (simp add: Straddle_generate_signal_def)
  next
    case False
    then have "\<not> (\<exists>call put. find_atm_legs k cs None None = (Some call, Some put))"
      using find_atm_legs_Some [of k cs] by blast
    then have "Straddle_generate_signal set_iter s p cs current_time clk = None"
      using k(1) hours
      by (cases "find_atm_legs k cs None None")
         (auto simp: Straddle_generate_signal_def split: option.splits)
    with False show ?thesis by simp
  qed
  with k show "\<exists>k. find_atm_strike set_iter cs p = Some k
             \<and> k \<in> strike ` set cs
             \<and> (\<forall>c \<in> set cs. \<bar>k - p\<bar> \<le> \<bar>strike c - p\<bar>)
             \<and> (if (\<exists>c \<in> set cs. strike c = k \<and> option_type c = CALL)
                    \<and> (\<exists>c \<in> set cs. strike c = k \<and> option_type c = PUT)
                 then \<exists>sg call put.
                        Straddle_generate_signal set_iter s p cs current_time clk = Some sg
                      \<and> contracts sg = [call, put]
                      \<and> call \<in> set cs \<and> option_type call = CALL \<and> strike call = k
                      \<and> put \<in> set cs \<and> option_type put = PUT \<and> strike put = k
                      \<and> sides sg = [BUY, BUY] \<and> quantities sg = [1, 1]
                      \<and> confidence sg = 65/100
                 else Straddle_generate_signal set_iter s p cs current_time clk = None)"
    by blast
qed

theorem C5_straddle_witness:
  "is_within_trading_hours straddle_strategy (Some ten_am) fixed_clock
   \<and> set (remdups (map strike five_strike_chain)) = set (map strike five_strike_chain)
   \<and> find_atm_strike remdups five_strike_chain 473 = Some 475
   \<and> (\<exists>sg. Straddle_generate_signal remdups straddle_strategy 473 five_strike_chain
              (Some ten_am) fixed_clock = Some sg
          \<and> contracts sg = [spy_contract CALL 475 (Some 1) (Some 2),
                            spy_contract PUT 475 (Some 1) (Some 2)])"
proof -
  have h: "is_within_trading_hours straddle_strategy (Some ten_am) fixed_clock"
    by (simp add: is_within_trading_hours_def straddle_strategy_def ten_am_def time_lt_def
        ALPACA_0DTE_CUTOFF_def)
  have i: "set (remdups (map strike five_strike_chain)) = set (map strike five_strike_chain)"
    by simp
  from C5_straddle [of straddle_strategy "Some ten_am" fixed_clock remdups five_strike_chain 473] h i
  have atm: "find_atm_strike remdups five_strike_chain 473 = Some 475" by blast
  have "\<exists>sg. Straddle_generate_signal remdups straddle_strategy 473 five_strike_chain
              (Some ten_am) fixed_clock = Some sg
          \<and> contracts sg = [spy_contract CALL 475 (Some 1) (Some 2),
                            spy_contract PUT 475 (Some 1) (Some 2)]"
    using h atm
    by (simp add: Straddle_generate_signal_def five_strike_chain_def spy_contract_def)
  with h i atm show ?thesis by blast
qed

section \<open>Strangle\<close>

lemma Strangle_generate_signal_eq:
  assumes "is_within_trading_hours s current_time clk"
  shows "Strangle_generate_signal s p cs current_time clk =
     (case filter (\<lambda>c. option_type c = CALL \<and> strike c > p) cs of
        [] \<Rightarrow> None
      | c0 # calls_rest \<Rightarrow>
          (case filter (\<lambda>c. option_type c = PUT \<and> strike c < p) cs of
             [] \<Rightarrow> None
           | p0 # puts_rest \<Rightarrow>
               Some \<lparr>strategy_type = STRANGLE,
                     contracts = [min_loop strike calls_rest c0, max_loop strike puts_rest p0],
                     sides = [BUY, BUY], quantities = [1, 1], confidence = 6/10,
                     reason = [Lit ''Strangle: call@'', Dec (strike (min_loop strike calls_rest c0)),
                               Lit '', put@'', Dec (strike (max_loop strike puts_rest p0))],
                     timestamp = (case current_time of Some t \<Rightarrow> t | None \<Rightarrow> clk 1)\<rparr>))"
proof -
  let ?oc = "filter (\<lambda>c. option_type c = CALL \<and> strike c > p) cs"
  let ?op = "filter (\<lambda>c. option_type c = PUT \<and> strike c < p) cs"
  have f: "filter (\<lambda>c. strike c > p) (filter (\<lambda>c. option_type c = CALL) cs) = ?oc"
          "filter (\<lambda>c. strike c < p) (filter (\<lambda>c. option_type c = PUT) cs) = ?op"
    by (simp_all add: conj_commute)
  have e: "filter (\<lambda>c. option_type c = CALL) cs = [] \<Longrightarrow> ?oc = []"
          "filter (\<lambda>c. option_type c = PUT) cs = [] \<Longrightarrow> ?op = []"
    by (auto simp: filter_empty_conv)
  show ?thesis
    using assms e
    by (cases ?oc; cases ?op)
       (auto simp: Strangle_generate_signal_def Let_def f split: list.splits)
qed


text \<open>
  C6: within trading hours the strangle gives no signal exactly when the list lacks a
  call with strike above the underlying price or a put with strike below it; a signal
  it gives has two legs, both bought, quantity 1 each, confidence 0.60: a call of the
  list above the price whose strike is least among such calls, and a put of the list
  below the price whose strike is greatest among such puts. With calls at 480 and 490,
  puts at 460 and 470 and an underlying price of 475 the legs are the 480 call and the
  470 put.
\<close>

theorem C6_strangle:
  assumes hours: "is_within_trading_hours s current_time clk"
  shows "(Strangle_generate_signal s p cs current_time clk = None
            \<longleftrightarrow> \<not> ((\<exists>c \<in> set cs. option_type c = CALL \<and> strike c > p)
                   \<and> (\<exists>c \<in> set cs. option_type c = PUT \<and> strike c < p)))
    \<and> (\<forall>sg. Strangle_generate_signal s p cs current_time clk = Some sg \<longrightarrow>
          (\<exists>sc sp. contracts sg = [sc, sp]
             \<and> sc \<in> set cs \<and> option_type sc = CALL \<and> strike sc > p
             \<and> (\<forall>c \<in> set cs. option_type c = CALL \<and> strike c > p \<longrightarrow> strike sc \<le> strike c)
             \<and> sp \<in> set cs \<and> option_type sp = PUT \<and> strike sp < p
             \<and> (\<forall>c \<in> set cs. option_type c = PUT \<and> strike c < p \<longrightarrow> strike c \<le> strike sp))
          \<and> sides sg = [BUY, BUY] \<and> quantities sg = [1, 1] \<and> confidence sg = 6/10)
    \<and> (\<exists>sg. Strangle_generate_signal s 475 strangle_chain current_time clk = Some sg
          \<and> contracts sg = [spy_contract CALL 480 (Some 1) (Some 2),
                            spy_contract PUT 470 (Some 1) (Some 2)])"
    (is "?none \<and> ?some \<and> ?example")
proof -
  let ?oc = "filter (\<lambda>c. option_type c = CALL \<and> strike c > p) cs"
  let ?op = "filter (\<lambda>c. option_type c = PUT \<and> strike c < p) cs"
  have "Strangle_generate_signal s p cs current_time clk = None \<longleftrightarrow> ?oc = [] \<or> ?op = []"
    by (cases ?oc; cases ?op) (simp_all add: Strangle_generate_signal_eq [OF hours])
  also have "\<dots> \<longleftrightarrow> \<not> ((\<exists>c \<in> set cs. option_type c = CALL \<and> strike c > p)
                   \<and> (\<exists>c \<in> set cs. option_type c = PUT \<and> strike c < p))"
    by (simp only: filter_empty_conv) blast
  finally have none: ?none .
  have some: ?some
  proof (rule allI, rule impI)
    fix sg assume sg: "Strangle_generate_signal s p cs current_time clk = Some sg"
    from sg obtain c0 cr p0 pr where oc: "?oc = c0 # cr" and op: "?op = p0 # pr"
      by (cases ?oc; cases ?op) (simp_all add: Strangle_generate_signal_eq [OF hours])
    let ?sc = "min_loop strike cr c0" and ?sp = "max_loop strike pr p0"
    from sg oc op have c: "contracts sg = [?sc, ?sp]" "sides sg = [BUY, BUY]"
        "quantities sg = [1, 1]" "confidence sg = 6/10"
      by (auto simp: Strangle_generate_signal_eq [OF hours])
    have "?sc \<in> set ?oc" using min_loop_mem [of strike cr c0] by (simp only: oc)
    then have sc: "?sc \<in> set cs" "option_type ?sc = CALL" "strike ?sc > p" by simp_all
    have "?sp \<in> set ?op" using max_loop_mem [of strike pr p0] by (simp only: op)
    then have sp: "?sp \<in> set cs" "option_type ?sp = PUT" "strike ?sp < p" by simp_all
    have cmin: "\<forall>c \<in> set cs. option_type c = CALL \<and> strike c > p \<longrightarrow> strike ?sc \<le> strike c"
    proof (intro ballI impI)
      fix c assume "c \<in> set cs" "option_type c = CALL \<and> strike c > p"
      then have "c \<in> set ?oc" by simp
      then have "c = c0 \<or> c \<in> set cr" by (simp only: oc) simp
      then show "strike ?sc \<le> strike c"
        using min_loop_le [of c cr strike c0] min_loop_le_best [of strike cr c0] by auto
    qed
    have pmax: "\<forall>c \<in> set cs. option_type c = PUT \<and> strike c < p \<longrightarrow> strike c \<le> strike ?sp"
    proof (intro ballI impI)
      fix c assume "c \<in> set cs" "option_type c = PUT \<and> strike c < p"
      then have "c \<in> set ?op" by simp
      then have "c = p0 \<or> c \<in> set pr" by (simp only: op) simp
      then show "strike c \<le> strike ?sp"
        using max_loop_ge [of c pr strike p0] max_loop_ge_best [of strike p0 pr] by auto
    qed
    show "(\<exists>sc sp. contracts sg = [sc, sp]
             \<and> sc \<in> set cs \<and> option_type sc = CALL \<and> strike sc > p
             \<and> (\<forall>c \<in> set cs. option_type c = CALL \<and> strike c > p \<longrightarrow> strike sc \<le> strike c)
             \<and> sp \<in> set cs \<and> option_type sp = PUT \<and> strike sp < p
             \<and> (\<forall>c \<in> set cs. option_type c = PUT \<and> strike c < p \<longrightarrow> strike c \<le> strike sp))
          \<and> sides sg = [BUY, BUY] \<and> quantities sg = [1, 1] \<and> confidence sg = 6/10"
      using c sc sp cmin pmax by blast
  qed
  have example: ?example
    by (simp add: Strangle_generate_signal_eq [OF hours] strangle_chain_def spy_contract_def)
  from none some example show ?thesis by (intro conjI)
qed

theorem C6_strangle_witness:
  "is_within_trading_hours strangle_strategy (Some ten_am) fixed_clock
   \<and> (\<exists>sg. Strangle_generate_signal strangle_strategy 475 strangle_chain (Some ten_am) fixed_clock
             = Some sg
          \<and> contracts sg = [spy_contract CALL 480 (Some 1) (Some 2),
                            spy_contract PUT 470 (Some 1) (Some 2)])"
proof -
  have h: "is_within_trading_hours strangle_strategy (Some ten_am) fixed_clock"
    by (simp add: is_within_trading_hours_def strangle_strategy_def ten_am_def time_lt_def
        ALPACA_0DTE_CUTOFF_def)
  from C6_strangle [OF h, of 475 strangle_chain] h show ?thesis by blast
qed


section \<open>Long call and long put\<close>








end
